theory Spec2Isabelle
  imports Complex_Main "HOL-Library.Multiset" "HOL-Library.Word"
begin

section \<open>Python list primitives used by the stitching code\<close>

text \<open>
  \<^verbatim>\<open>range(n)\<close> and \<^verbatim>\<open>range(a, b)\<close> on Python integers; both are empty when the bound is
  not above the start.
\<close>

definition py_range :: "int \<Rightarrow> int list" where
  "py_range n = map int [0..<nat n]"

definition py_range2 :: "int \<Rightarrow> int \<Rightarrow> int list" where
  "py_range2 a b = map (\<lambda>k. a + int k) [0..<nat (b - a)]"

text \<open>
  A slice bound of a list of length \<open>n\<close>: a negative bound counts from the end, and every
  bound is clamped into \<open>0..n\<close> (Python never raises on a slice).
\<close>

definition slice_bound :: "nat \<Rightarrow> int \<Rightarrow> nat" where
  "slice_bound n i = (if i < 0 then nat (int n + i) else min (nat i) n)"

text \<open>\<^verbatim>\<open>xs[i:j]\<close>, \<^verbatim>\<open>xs[i:]\<close> and the slice assignment \<^verbatim>\<open>xs[i:j] = ys\<close>.\<close>

definition py_slice :: "'a list \<Rightarrow> int \<Rightarrow> int \<Rightarrow> 'a list" where
  "py_slice xs i j =
     (let a = slice_bound (length xs) i; b = slice_bound (length xs) j
      in take (b - a) (drop a xs))"

definition py_slice_from :: "'a list \<Rightarrow> int \<Rightarrow> 'a list" where
  "py_slice_from xs i = drop (slice_bound (length xs) i) xs"

definition py_slice_assign :: "'a list \<Rightarrow> int \<Rightarrow> int \<Rightarrow> 'a list \<Rightarrow> 'a list" where
  "py_slice_assign xs i j ys =
     (let a = slice_bound (length xs) i; b = max a (slice_bound (length xs) j)
      in take a xs @ ys @ drop b xs)"

text \<open>The substring test \<^verbatim>\<open>needle in haystack\<close> on Python strings.\<close>

fun starts_with :: "string \<Rightarrow> string \<Rightarrow> bool" where
  "starts_with [] hay = True"
| "starts_with (c # cs) [] = False"
| "starts_with (c # cs) (h # hs) = (c = h \<and> starts_with cs hs)"

fun py_in :: "string \<Rightarrow> string \<Rightarrow> bool" where
  "py_in needle [] = starts_with needle []"
| "py_in needle (h # hs) = (starts_with needle (h # hs) \<or> py_in needle hs)"


section \<open>Ordering of a tile grid: \<^verbatim>\<open>rearrange_folders_list\<close>\<close>

text \<open>
  First loop of \<^verbatim>\<open>rearrange_folders_list\<close>: row \<open>nb_line\<close> of the index list is reversed in
  place when \<^verbatim>\<open>(nb_line + ("left" in starting_position) * 1) % 2 == 0\<close>.
\<close>

definition reverse_line :: "string \<Rightarrow> int \<Rightarrow> int \<Rightarrow> int list \<Rightarrow> int list" where
  "reverse_line starting_position number_of_columns nb_line list_of_folders =
     (if (nb_line + (if py_in ''left'' starting_position then 1 else 0)) mod 2 = 0
      then py_slice_assign list_of_folders
             (nb_line * number_of_columns) (nb_line * number_of_columns + number_of_columns)
             (rev (py_slice list_of_folders
                     (nb_line * number_of_columns)
                     (nb_line * number_of_columns + number_of_columns)))
      else list_of_folders)"

text \<open>
  Second loop (taken when \<^verbatim>\<open>"bottom" in starting_position\<close>): row \<open>nb_line\<close> of the new list
  is overwritten with the row of the serpentine list counted from its end.
\<close>

definition place_line :: "int \<Rightarrow> int list \<Rightarrow> int \<Rightarrow> int list \<Rightarrow> int list" where
  "place_line number_of_columns list_of_folders nb_line new_list_of_folders =
     (if nb_line * number_of_columns > 0
      then py_slice_assign new_list_of_folders
             (nb_line * number_of_columns) (nb_line * number_of_columns + number_of_columns)
             (py_slice list_of_folders
                (- (nb_line * number_of_columns + number_of_columns))
                (- (nb_line * number_of_columns)))
      else py_slice_assign new_list_of_folders
             (nb_line * number_of_columns) (nb_line * number_of_columns + number_of_columns)
             (py_slice_from list_of_folders
                (- (nb_line * number_of_columns + number_of_columns))))"

definition rearrange_folders_list :: "string \<Rightarrow> int \<Rightarrow> int \<Rightarrow> int list" where
  "rearrange_folders_list starting_position number_of_lines number_of_columns =
     (let list_of_folders =
            fold (reverse_line starting_position number_of_columns)
              (py_range number_of_lines)
              (py_range (number_of_lines * number_of_columns))
      in if py_in ''bottom'' starting_position
         then fold (place_line number_of_columns list_of_folders)
                (py_range number_of_lines)
                (py_range2 1 (number_of_lines * number_of_columns + 1))
         else list_of_folders)"

text \<open>The rows of a grid ordering: consecutive chunks of \<open>c\<close> entries.\<close>

fun grid_rows :: "nat \<Rightarrow> nat \<Rightarrow> 'a list \<Rightarrow> 'a list list" where
  "grid_rows 0 c xs = []"
| "grid_rows (Suc r) c xs = take c xs # grid_rows r c (drop c xs)"


section \<open>Errors and arrays\<close>

text \<open>
  The exceptions the modelled code can raise. \<^verbatim>\<open>sys.exit(message)\<close> raises
  \<^verbatim>\<open>SystemExit\<close> carrying the message.
\<close>

datatype error = SystemExit string | FileNotFoundError | SameFileError | IndexError | ValueError

text \<open>A loop over a list that stops at the first exception.\<close>

fun foldM :: "('a \<Rightarrow> 's \<Rightarrow> 'e + 's) \<Rightarrow> 'a list \<Rightarrow> 's \<Rightarrow> 'e + 's" where
  "foldM f [] s = Inr s"
| "foldM f (x # xs) s = (case f x s of Inl e \<Rightarrow> Inl e | Inr s' \<Rightarrow> foldM f xs s')"

text \<open>
  NumPy arrays are modelled by their shape and their entries. Floating-point entries are
  modelled by real numbers: rounding is not part of the model. A three-dimensional array has
  the shape \<open>(nb_slices, width, height)\<close>, in the names the code gives to
  \<^verbatim>\<open>image.shape\<close>; a two-dimensional one has the shape \<open>(shape[0], shape[1])\<close>, rows first.
  Entries outside the shape carry no meaning.
\<close>

record 'a vol =
  vol_n :: nat
  vol_w :: nat
  vol_h :: nat
  vol_at :: "nat \<Rightarrow> nat \<Rightarrow> nat \<Rightarrow> 'a"

record 'a img =
  img_h :: nat
  img_w :: nat
  img_at :: "nat \<Rightarrow> nat \<Rightarrow> 'a"

text \<open>
  Broadcasting of one axis: equal extents are kept, an extent of 1 is stretched to the other,
  anything else raises \<^verbatim>\<open>ValueError\<close>. \<open>bidx d i\<close> is the index read on an axis of
  extent \<open>d\<close> for the result index \<open>i\<close>.
\<close>

definition broadcast_dim :: "nat \<Rightarrow> nat \<Rightarrow> nat option" where
  "broadcast_dim a b =
     (if a = b then Some a else if a = 1 then Some b else if b = 1 then Some a else None)"

definition bidx :: "nat \<Rightarrow> nat \<Rightarrow> nat" where
  "bidx d i = (if d = 1 then 0 else i)"

definition np_binop3 :: "('a \<Rightarrow> 'b \<Rightarrow> 'c) \<Rightarrow> 'a vol \<Rightarrow> 'b vol \<Rightarrow> error + 'c vol" where
  "np_binop3 f a b =
     (case (broadcast_dim (vol_n a) (vol_n b), broadcast_dim (vol_w a) (vol_w b),
            broadcast_dim (vol_h a) (vol_h b)) of
        (Some n, Some w, Some h) \<Rightarrow>
          Inr \<lparr>vol_n = n, vol_w = w, vol_h = h,
               vol_at = (\<lambda>i j k. f (vol_at a (bidx (vol_n a) i) (bidx (vol_w a) j) (bidx (vol_h a) k))
                                    (vol_at b (bidx (vol_n b) i) (bidx (vol_w b) j) (bidx (vol_h b) k)))\<rparr>
      | _ \<Rightarrow> Inl ValueError)"

definition np_div_scalar3 :: "real vol \<Rightarrow> real \<Rightarrow> real vol" where
  "np_div_scalar3 a c = a\<lparr>vol_at := (\<lambda>i j k. vol_at a i j k / c)\<rparr>"

text \<open>The entries of a two-dimensional array as a list of rows, and back.\<close>

definition img_rows :: "'a img \<Rightarrow> 'a list list" where
  "img_rows a = map (\<lambda>i. map (img_at a i) [0..<img_w a]) [0..<img_h a]"

definition img_of_rows :: "'a list list \<Rightarrow> 'a img" where
  "img_of_rows rs =
     \<lparr>img_h = length rs, img_w = (case rs of [] \<Rightarrow> 0 | r # _ \<Rightarrow> length r),
      img_at = (\<lambda>i j. rs ! i ! j)\<rparr>"

text \<open>\<^verbatim>\<open>np.zeros((h, w))\<close>: a negative dimension raises \<^verbatim>\<open>ValueError\<close>.\<close>

definition np_zeros2 :: "int \<Rightarrow> int \<Rightarrow> error + real img" where
  "np_zeros2 h w =
     (if h < 0 \<or> w < 0 then Inl ValueError
      else Inr \<lparr>img_h = nat h, img_w = nat w, img_at = (\<lambda>i j. 0)\<rparr>)"

text \<open>
  The assignment \<^verbatim>\<open>dst[a:b, :] = src[c:d, :]\<close>. Both row ranges are clamped as slices are; the
  source block must have the extent of the destination block or the extent 1 on each axis,
  otherwise NumPy raises \<^verbatim>\<open>ValueError\<close>.
\<close>

definition assign_rows :: "'a img \<Rightarrow> int \<Rightarrow> int \<Rightarrow> 'a img \<Rightarrow> int \<Rightarrow> int \<Rightarrow> error + 'a img" where
  "assign_rows dst a b src c d =
     (let lo = slice_bound (img_h dst) a; nd = slice_bound (img_h dst) b - lo;
          from = slice_bound (img_h src) c; ns = slice_bound (img_h src) d - from
      in if (ns = nd \<or> ns = 1) \<and> (img_w src = img_w dst \<or> img_w src = 1)
         then Inr (dst\<lparr>img_at := (\<lambda>i j. if lo \<le> i \<and> i < lo + nd
                                          then img_at src (from + bidx ns (i - lo)) (bidx (img_w src) j)
                                          else img_at dst i j)\<rparr>)
         else Inl ValueError)"


section \<open>Intensity conversions of \<^verbatim>\<open>resampling.py\<close>\<close>

text \<open>
  An image is given by the list of its pixels: both conversions work pixel by pixel, whatever
  the shape (the argument \<^verbatim>\<open>image\<close> is \<open>image_in\<close> here).
  \<^verbatim>\<open>image.astype(np.float32)\<close> is exact on 16-bit values.
\<close>

definition conversion_from_uint16_to_float32 :: "16 word list \<Rightarrow> real \<Rightarrow> real \<Rightarrow> real list" where
  "conversion_from_uint16_to_float32 image_in min_value max_value =
     map (\<lambda>p. (real (unat p) / 65535) * (max_value - min_value) - min_value) image_in"

text \<open>
  \<^verbatim>\<open>astype(np.uint16)\<close> truncates towards zero. A value whose truncation is not a 16-bit
  number has no result fixed by the source: it is \<open>None\<close> here.
\<close>

definition astype_uint16 :: "real \<Rightarrow> 16 word option" where
  "astype_uint16 x =
     (if - 1 < x \<and> x < 65536 then Some (word_of_int (if 0 \<le> x then \<lfloor>x\<rfloor> else \<lceil>x\<rceil>)) else None)"

definition conversion_from_float32_to_uint16 :: "real list \<Rightarrow> real \<Rightarrow> real \<Rightarrow> 16 word option list" where
  "conversion_from_float32_to_uint16 image_in min_value max_value =
     map (\<lambda>p. if max_value = min_value then None
              else astype_uint16 ((p - min_value) / (max_value - min_value) * 65535)) image_in"


section \<open>Averaging of two slice sequences: \<^verbatim>\<open>average_images_from_filenames\<close>\<close>

text \<open>
  \<^verbatim>\<open>open_sequence\<close> belongs to the input/output module and is a parameter: it maps a list of
  file names to the volume read from them, or raises.
\<close>

definition average_images_from_filenames ::
  "('p list \<Rightarrow> error + real vol) \<Rightarrow> 'p list \<Rightarrow> 'p list \<Rightarrow> int \<Rightarrow> error + real vol" where
  "average_images_from_filenames open_sequence first_image_filenames second_image_filenames mode =
     (case open_sequence first_image_filenames of
        Inl e \<Rightarrow> Inl e
      | Inr first_image \<Rightarrow>
          (case open_sequence second_image_filenames of
             Inl e \<Rightarrow> Inl e
           | Inr second_image \<Rightarrow>
               if mode = 1
               then map_sum id (\<lambda>s. np_div_scalar3 s 2) (np_binop3 (+) first_image second_image)
               else map_sum id (\<lambda>s. np_div_scalar3 s 2) (np_binop3 (+) first_image second_image)))"


section \<open>Final concatenation of the rows in \<^verbatim>\<open>multiple_tile_registration\<close>\<close>

text \<open>
  One assignment of the concatenation loop: the slice \<open>out_slice\<close> of row \<open>nb_line\<close> is
  written into the canvas \<open>empty_image\<close>. Python's \<^verbatim>\<open>//\<close> rounds down, as \<open>div\<close> does, and
  binds as tightly as \<^verbatim>\<open>*\<close>, from the left.
\<close>

definition place_row :: "int \<Rightarrow> int \<Rightarrow> int \<Rightarrow> real img \<Rightarrow> real img \<Rightarrow> error + real img" where
  "place_row ref_height supposed_overlap nb_line out_slice empty_image =
     (let shape0 = int (img_h out_slice)
      in if nb_line = 0
         then assign_rows empty_image 0 (shape0 - supposed_overlap div 2)
                out_slice 0 (shape0 - supposed_overlap div 2)
         else assign_rows empty_image
                (nb_line * (ref_height - supposed_overlap div 2)
                   - ((nb_line - 1) * supposed_overlap) div 2)
                (nb_line * ref_height - ((2 * nb_line + 1) * supposed_overlap) div 2 + shape0)
                out_slice (supposed_overlap div 2) (shape0 - supposed_overlap div 2))"

text \<open>
  Step 5 of \<^verbatim>\<open>multiple_tile_registration\<close>. \<open>list_of_line_images\<close> holds, for every row of the
  grid, the slices read by \<^verbatim>\<open>open_image\<close> from that row's folder; the number of rows is the
  length of this list. The canvas is allocated once and reused for every output slice; the
  result is the list of the saved canvases. \<^verbatim>\<open>min\<close> of an empty list raises \<^verbatim>\<open>ValueError\<close>.
\<close>

definition concatenate_lines ::
  "int \<Rightarrow> int \<Rightarrow> int \<Rightarrow> int \<Rightarrow> real img list list \<Rightarrow> error + real img list" where
  "concatenate_lines ref_height ref_width number_of_columns supposed_overlap list_of_line_images =
     (let number_of_lines = int (length list_of_line_images)
      in case np_zeros2 (number_of_lines * ref_height - supposed_overlap * (number_of_lines - 1))
                        (ref_width * number_of_columns - supposed_overlap * (number_of_columns - 1)) of
           Inl e \<Rightarrow> Inl e
         | Inr empty_image \<Rightarrow>
             if list_of_line_images = [] then Inl ValueError
             else map_sum id snd
                    (foldM (\<lambda>nb_image (canvas, saved).
                              case foldM (\<lambda>nb_line. place_row ref_height supposed_overlap (int nb_line)
                                                     (list_of_line_images ! nb_line ! nb_image))
                                     [0..<length list_of_line_images] canvas of
                                Inl e \<Rightarrow> Inl e
                              | Inr canvas' \<Rightarrow> Inr (canvas', saved @ [canvas']))
                       [0..<Min (set (map length list_of_line_images))]
                       (empty_image, [])))"


section \<open>Stitching along the stacking axis: \<^verbatim>\<open>stitch_multiple_folders_into_one\<close>\<close>

text \<open>
  A file is named by its folder and its base name. The file system is seen through the
  listing of every folder (the base names of the image files that \<^verbatim>\<open>glob\<close> finds there, in
  no particular order); the contents of the files are not part of the state. Every
  \<^verbatim>\<open>os.rename\<close>, \<^verbatim>\<open>shutil.copy2\<close> and \<^verbatim>\<open>save_tif_image\<close> of a run is recorded, in order.
  \<open>Saved folder name rows\<close> records a slice, given by its rows, saved under
  \<^verbatim>\<open>folder + name\<close>, the path that the code builds without a separator.
\<close>

type_synonym ('f, 'n) path = "'f \<times> 'n"

datatype ('f, 'n) event =
    Renamed "('f, 'n) path" "('f, 'n) path"
  | Copied "('f, 'n) path" "('f, 'n) path"
  | Saved 'f 'n "16 word option list list"

record ('f, 'n) world =
  dir :: "'f \<Rightarrow> 'n list"
  events :: "('f, 'n) event list"

fun event_source :: "('f, 'n) event \<Rightarrow> ('f, 'n) path list" where
  "event_source (Renamed src dst) = [src]"
| "event_source (Copied src dst) = [src]"
| "event_source (Saved folder name slice_data) = []"

definition emitted_sources :: "('f, 'n) world \<Rightarrow> ('f, 'n) path list" where
  "emitted_sources w = concat (map event_source (events w))"

text \<open>
  The three \<^verbatim>\<open>glob\<close> calls on a folder followed by \<^verbatim>\<open>sort()\<close> or \<^verbatim>\<open>sort(reverse=True)\<close>: all
  the paths share the folder, so they are ordered by base name.
\<close>

definition glob_sorted :: "('f, 'n::linorder) world \<Rightarrow> bool \<Rightarrow> 'f \<Rightarrow> ('f, 'n) path list" where
  "glob_sorted w flip folder_name =
     map (Pair folder_name) (if flip then rev (sort (dir w folder_name)) else sort (dir w folder_name))"

definition os_rename ::
  "('f, 'n) path \<Rightarrow> ('f, 'n) path \<Rightarrow> ('f, 'n) world \<Rightarrow> error \<times> ('f, 'n) world + ('f, 'n) world" where
  "os_rename src dst w =
     (if snd src \<notin> set (dir w (fst src)) then Inl (FileNotFoundError, w)
      else let removed = (dir w)(fst src := removeAll (snd src) (dir w (fst src)))
           in Inr (w\<lparr>dir := removed(fst dst := List.insert (snd dst) (removed (fst dst))),
                     events := events w @ [Renamed src dst]\<rparr>))"

definition shutil_copy2 ::
  "('f, 'n) path \<Rightarrow> ('f, 'n) path \<Rightarrow> ('f, 'n) world \<Rightarrow> error \<times> ('f, 'n) world + ('f, 'n) world" where
  "shutil_copy2 src dst w =
     (if snd src \<notin> set (dir w (fst src)) then Inl (FileNotFoundError, w)
      else if src = dst then Inl (SameFileError, w)
      else Inr (w\<lparr>dir := (dir w)(fst dst := List.insert (snd dst) (dir w (fst dst))),
                   events := events w @ [Copied src dst]\<rparr>))"

text \<open>
  The loop that copies or moves the files of \<open>list_to_copy\<close> into the output folder
  (\<open>transfer_slice\<close> is its body, for one value of \<^verbatim>\<open>slice_index\<close>). With
  \<open>flip\<close> the output name is taken from the mirrored position of the list. The source has
  three copies of this loop: one in each branch of the test on \<^verbatim>\<open>overlap_mode\<close>, one for the
  last folder.
\<close>

definition transfer_slice ::
  "'f \<Rightarrow> bool \<Rightarrow> int \<Rightarrow> ('f, 'n) path list \<Rightarrow> nat \<Rightarrow> ('f, 'n) world
     \<Rightarrow> error \<times> ('f, 'n) world + ('f, 'n) world" where
  "transfer_slice output_folder flip copy_mode list_to_copy slice_index w =
     (let output_filename =
            (output_folder,
             snd (if flip then list_to_copy ! (length list_to_copy - (slice_index + 1))
                  else list_to_copy ! slice_index))
      in if copy_mode = 0 then os_rename (list_to_copy ! slice_index) output_filename w
         else shutil_copy2 (list_to_copy ! slice_index) output_filename w)"

definition copy_or_move ::
  "'f \<Rightarrow> bool \<Rightarrow> int \<Rightarrow> ('f, 'n) path list \<Rightarrow> ('f, 'n) world
     \<Rightarrow> error \<times> ('f, 'n) world + ('f, 'n) world" where
  "copy_or_move output_folder flip copy_mode list_to_copy w =
     foldM (transfer_slice output_folder flip copy_mode list_to_copy)
       [0..<length list_to_copy] w"

text \<open>\<^verbatim>\<open>int(x)\<close> on a float truncates towards zero; \<open>int_half n\<close> is \<^verbatim>\<open>int(n / 2)\<close>.\<close>

definition py_int :: "real \<Rightarrow> int" where
  "py_int x = (if 0 \<le> x then \<lfloor>x\<rfloor> else \<lceil>x\<rceil>)"

definition int_half :: "int \<Rightarrow> int" where
  "int_half n = (if 0 \<le> n then n div 2 else - ((- n) div 2))"

text \<open>
  The options of a run. Two operations of other modules are parameters:
  \<open>overlap_search w bottom_band top_band\<close> is the value of
  \<^verbatim>\<open>look_for_maximum_correlation_band(open_sequence(bottom_band), open_sequence(top_band), 10, True)\<close>
  in the file system \<open>w\<close>, and \<open>open_sequence_in w names\<close> is the volume that
  \<^verbatim>\<open>open_sequence\<close> reads from the files in \<open>w\<close>.
\<close>

record ('f, 'n) options =
  output_folder :: 'f
  delta_z :: int
  look_for_best_slice :: bool
  copy_mode :: int
  security_band_size :: int
  overlap_mode :: int
  band_average_size :: int
  flip :: bool
  overlap_search :: "('f, 'n) world \<Rightarrow> ('f, 'n) path list \<Rightarrow> ('f, 'n) path list \<Rightarrow> error + real"
  open_sequence_in :: "('f, 'n) world \<Rightarrow> ('f, 'n) path list \<Rightarrow> error + real vol"

text \<open>
  The saving loop of the averaging branch: for every name of the band, every slice
  \<open>0, \<dots>, band_average_size - 1\<close> of the averaged volume is saved under that name.
\<close>

definition save_averaged ::
  "('f, 'n) options \<Rightarrow> real vol \<Rightarrow> ('f, 'n) path list \<Rightarrow> ('f, 'n) world
     \<Rightarrow> error \<times> ('f, 'n) world + ('f, 'n) world" where
  "save_averaged opts averaged_image list_of_new_filenames w =
     foldM (\<lambda>filename.
              foldM (\<lambda>i w. if nat i < vol_n averaged_image
                            then Inr (w\<lparr>events := events w @
                                   [Saved (output_folder opts) (snd filename)
                                      (img_rows
                                         \<lparr>img_h = vol_w averaged_image, img_w = vol_h averaged_image,
                                          img_at = (\<lambda>r c. astype_uint16
                                                              (vol_at averaged_image (nat i) r c))\<rparr>)]\<rparr>)
                            else Inl (IndexError, w))
                (py_range (band_average_size opts)))
       list_of_new_filenames w"

text \<open>
  The body of the loop over the folders, for the folder of index \<open>folder_nb\<close> in the sorted
  list. The state of the loop is \<open>(bottom_overlap_index, top_overlap_index, w)\<close>.
\<close>

definition stitch_folder ::
  "('f, 'n::linorder) options \<Rightarrow> 'f list \<Rightarrow> nat \<Rightarrow> int \<times> int \<times> ('f, 'n) world
     \<Rightarrow> error \<times> ('f, 'n) world + int \<times> int \<times> ('f, 'n) world" where
  "stitch_folder opts list_of_folders folder_nb state =
     (case state of (bottom_overlap_index, top_overlap_index, w) \<Rightarrow>
      let bottom_image_filenames = glob_sorted w (flip opts) (list_of_folders ! folder_nb);
          nb_slices = int (length bottom_image_filenames)
      in if int folder_nb < int (length list_of_folders) - 1
         then
           let top_image_filenames = glob_sorted w (flip opts) (list_of_folders ! (folder_nb + 1));
               supposed_bottom_overlap_slice = nb_slices - int_half (nb_slices - delta_z opts);
               supposed_top_overlap_slice = int_half (nb_slices - delta_z opts)
           in if security_band_size opts > 0
              then
                case (if look_for_best_slice opts
                      then
                        case overlap_search opts w
                               (py_slice bottom_image_filenames
                                  (supposed_bottom_overlap_slice - security_band_size opts)
                                  (supposed_bottom_overlap_slice + security_band_size opts))
                               (py_slice top_image_filenames
                                  (supposed_top_overlap_slice - security_band_size opts)
                                  (supposed_top_overlap_slice + security_band_size opts)) of
                          Inl e \<Rightarrow> Inl (e, w)
                        | Inr found \<Rightarrow> Inr (security_band_size opts - py_int found)
                      else Inr 0) of
                  Inl ew \<Rightarrow> Inl ew
                | Inr overlap_index_difference \<Rightarrow>
                    let bottom_overlap_index = supposed_bottom_overlap_slice + overlap_index_difference;
                        list_to_copy = py_slice bottom_image_filenames top_overlap_index bottom_overlap_index
                    in case copy_or_move (output_folder opts) (flip opts) (copy_mode opts) list_to_copy w of
                         Inl ew \<Rightarrow> Inl ew
                       | Inr w' \<Rightarrow>
                           if overlap_mode opts = 0
                           then Inr (bottom_overlap_index, supposed_top_overlap_slice, w')
                           else
                             let bottom_average_filenames =
                                   py_slice bottom_image_filenames
                                     (bottom_overlap_index - int_half (band_average_size opts))
                                     (bottom_overlap_index + int_half (band_average_size opts));
                                 top_average_filenames =
                                   py_slice top_image_filenames
                                     (supposed_top_overlap_slice + overlap_index_difference
                                        - int_half (band_average_size opts))
                                     (supposed_top_overlap_slice + overlap_index_difference
                                        + int_half (band_average_size opts))
                             in case average_images_from_filenames (open_sequence_in opts w')
                                       bottom_average_filenames top_average_filenames (overlap_mode opts) of
                                  Inl e \<Rightarrow> Inl (e, w')
                                | Inr averaged_image \<Rightarrow>
                                    (case save_averaged opts averaged_image bottom_average_filenames w' of
                                       Inl ew \<Rightarrow> Inl ew
                                     | Inr w'' \<Rightarrow>
                                         Inr (bottom_overlap_index,
                                              supposed_top_overlap_slice + overlap_index_difference
                                                + int_half (band_average_size opts),
                                              w''))
              else Inl (SystemExit ''Please use a security_band_size > 0'', w)
         else
           case copy_or_move (output_folder opts) (flip opts) (copy_mode opts)
                  (py_slice bottom_image_filenames top_overlap_index (- 1)) w of
             Inl ew \<Rightarrow> Inl ew
           | Inr w' \<Rightarrow> Inr (bottom_overlap_index, top_overlap_index, w'))"

definition stitch_multiple_folders_into_one ::
  "('f::linorder, 'n::linorder) options \<Rightarrow> 'f list \<Rightarrow> ('f, 'n) world
     \<Rightarrow> error \<times> ('f, 'n) world + int \<times> int \<times> ('f, 'n) world" where
  "stitch_multiple_folders_into_one opts list_of_folders w =
     foldM (stitch_folder opts (sort list_of_folders)) [0..<length list_of_folders] (0, 0, w)"

text \<open>Runs used as examples below, on folders and files named by numbers.\<close>

definition example_options :: "(nat, nat) options" where
  "example_options =
     \<lparr>output_folder = 9, delta_z = 2, look_for_best_slice = False, copy_mode = 1,
      security_band_size = 10, overlap_mode = 0, band_average_size = 0, flip = False,
      overlap_search = (\<lambda>w bottom_band top_band. Inl ValueError),
      open_sequence_in = (\<lambda>w names. Inl FileNotFoundError)\<rparr>"

definition example_world :: "(nat, nat) world" where
  "example_world =
     \<lparr>dir = (\<lambda>folder. if folder = 0 then [0, 1, 2, 3]
                       else if folder = 1 then [10, 11, 12, 13] else []),
      events = []\<rparr>"


definition no_band_options :: "(nat, nat) options" where
  "no_band_options = example_options\<lparr>security_band_size := 0\<rparr>"


section \<open>What a cut-over run emits\<close>






section \<open>Correlation of slices: \<^verbatim>\<open>look_for_maximum_correlation\<close>\<close>













section \<open>Correlation over a band: \<^verbatim>\<open>look_for_maximum_correlation_band\<close>\<close>






section \<open>The grid ordering is a permutation\<close>

lemma length_py_slice_assign_rev:
  "length (py_slice_assign xs i j (rev (py_slice xs i j))) = length xs"
  by (auto simp: py_slice_assign_def py_slice_def Let_def max_def min_def)

lemma mset_py_slice_assign_rev:
  "mset (py_slice_assign xs i j (rev (py_slice xs i j))) = mset xs"
proof -
  define a where "a = slice_bound (length xs) i"
  define b where "b = slice_bound (length xs) j"
  have "mset (take a xs) + mset (take (b - a) (drop a xs)) + mset (drop (max a b) xs) = mset xs"
  proof (cases "a \<le> b")
    case True
    have "mset (take (b - a) (drop a xs)) + mset (drop (b - a) (drop a xs)) = mset (drop a xs)"
      unfolding mset_append [symmetric] append_take_drop_id ..
    moreover have "drop (b - a) (drop a xs) = drop b xs" using True by simp
    moreover have "mset (take a xs) + mset (drop a xs) = mset xs"
      unfolding mset_append [symmetric] append_take_drop_id ..
    ultimately have "mset xs = mset (take a xs) + mset (take (b - a) (drop a xs)) + mset (drop b xs)"
      by (simp add: add.assoc)
    then show ?thesis using True by (simp add: max_def)
  next
    case False
    then show ?thesis by (simp add: max_def flip: mset_append)
  qed
  then show ?thesis
    by (simp add: py_slice_assign_def py_slice_def Let_def a_def b_def add.assoc)
qed

lemma mset_reverse_line: "mset (reverse_line sp c k xs) = mset xs"
  by (simp add: reverse_line_def mset_py_slice_assign_rev)

lemma mset_fold_reverse_line: "mset (fold (reverse_line sp c) ks xs) = mset xs"
  by (induction ks arbitrary: xs) (simp_all add: mset_reverse_line)

lemma block_le: "k < R \<Longrightarrow> k * C + C \<le> R * (C::nat)"
proof -
  assume "k < R"
  then have "Suc k \<le> R" by simp
  then have "Suc k * C \<le> R * C" by (rule mult_le_mono1)
  then show ?thesis by (simp add: add.commute)
qed

lemma place_line_eq:
  assumes "k < R" and "length lof = R * C" and "length new = R * C"
  shows "place_line (int C) lof (int k) new =
           take (k * C) new @ take C (drop (R * C - k * C - C) lof) @ drop (k * C + C) new"
proof -
  have le: "k * C + C \<le> R * C" using assms(1) by (rule block_le)
  have b1: "slice_bound (R * C) (int k * int C) = k * C"
    using le by (simp add: slice_bound_def flip: of_nat_mult)
  have b2: "slice_bound (R * C) (int k * int C + int C) = k * C + C"
    using le by (simp add: slice_bound_def flip: of_nat_mult of_nat_add)
  show ?thesis
  proof (cases "k * C > 0")
    case True
    then have pos: "int k * int C > 0" by (simp flip: of_nat_mult)
    have b3: "slice_bound (R * C) (- (int k * int C + int C)) = R * C - k * C - C"
      using True le unfolding slice_bound_def 
      by (simp flip: of_nat_mult of_nat_add) 
    have b4: "slice_bound (R * C) (- (int k * int C)) = R * C - k * C"
      using True le unfolding slice_bound_def 
      by (simp flip: of_nat_mult of_nat_add) 
    have "R * C - k * C - (R * C - k * C - C) = C" using le by simp
    then show ?thesis
      unfolding place_line_def py_slice_assign_def py_slice_def Let_def assms(2,3) b1 b2 b3 b4
      using pos by simp
  next
    case False
    then have z: "k * C = 0" by simp
    then have nz: "\<not> int k * int C > 0" by (simp flip: of_nat_mult)
    have b3: "slice_bound (R * C) (- (int k * int C + int C)) = R * C - k * C - C"
      using z le unfolding slice_bound_def 
      by (auto simp flip: of_nat_mult of_nat_add) 
    have "length (drop (R * C - k * C - C) lof) \<le> C"
      using le assms(2) by (simp add: z)
    then have "drop (R * C - k * C - C) lof = take C (drop (R * C - k * C - C) lof)"
      by simp
    then show ?thesis
      unfolding place_line_def py_slice_assign_def py_slice_from_def Let_def assms(2,3) b1 b2 b3
      using nz by simp
  qed
qed

lemma fold_place_line_inv:
  assumes "length lof = R * C" and "length new = R * C" and "k \<le> R"
  shows "length (fold (place_line (int C) lof) (map int [0..<k]) new) = R * C \<and>
         mset (take (k * C) (fold (place_line (int C) lof) (map int [0..<k]) new)) =
           mset (drop (R * C - k * C) lof)"
  using assms(3)
proof (induction k)
  case 0
  then show ?case using assms by simp
next
  case (Suc k)
  define cur where "cur = fold (place_line (int C) lof) (map int [0..<k]) new"
  have kR: "k < R" using Suc.prems by simp
  have le: "k * C + C \<le> R * C" using kR by (rule block_le)
  have len: "length cur = R * C"
    and ms: "mset (take (k * C) cur) = mset (drop (R * C - k * C) lof)"
    using Suc.IH kR by (simp_all add: cur_def)
  have step: "fold (place_line (int C) lof) (map int [0..<Suc k]) new =
        take (k * C) cur @ take C (drop (R * C - k * C - C) lof) @ drop (k * C + C) cur"
    using place_line_eq [OF kR assms(1) len] by (simp add: cur_def)
  have l1: "length (take (k * C) cur) = k * C" using len le by simp
  have l2: "length (take C (drop (R * C - k * C - C) lof)) = C"
    using assms(1) le by simp
  have tk: "take (Suc k * C) (take (k * C) cur @ take C (drop (R * C - k * C - C) lof) @ drop (k * C + C) cur)
            = take (k * C) cur @ take C (drop (R * C - k * C - C) lof)"
    using l1 l2 by (simp add: add.commute)
  have e: "R * C - k * C = C + (R * C - k * C - C)"
    using le by simp
  have dr: "drop (R * C - k * C - C) lof =
            take C (drop (R * C - k * C - C) lof) @ drop (C + (R * C - k * C - C)) lof"
    by (simp only: drop_drop [symmetric] append_take_drop_id)
  have "mset (drop (R * C - Suc k * C) lof) =
        mset (take C (drop (R * C - k * C - C) lof)) + mset (drop (R * C - k * C) lof)"
  proof -
    have "R * C - Suc k * C = R * C - k * C - C" by simp
    then show ?thesis using dr e by (metis mset_append)
  qed
  then have "mset (take (Suc k * C) (fold (place_line (int C) lof) (map int [0..<Suc k]) new)) =
        mset (drop (R * C - Suc k * C) lof)"
    unfolding step tk using ms by simp
  moreover have "length (fold (place_line (int C) lof) (map int [0..<Suc k]) new) = R * C"
    unfolding step using len le l2 by simp
  ultimately show ?case by simp
qed

lemma mset_rearrange:
  "mset (rearrange_folders_list sp (int R) (int C)) = mset (map int [0..<R * C])"
proof -
  define lof where "lof = fold (reverse_line sp (int C)) (py_range (int R)) (py_range (int R * int C))"
  have ms: "mset lof = mset (map int [0..<R * C])"
    by (simp add: lof_def mset_fold_reverse_line py_range_def flip: of_nat_mult)
  then have len: "length lof = R * C"
    by (metis length_map length_upt minus_nat.diff_0 size_mset)
  have len2: "length (py_range2 1 (int R * int C + 1)) = R * C"
    by (simp add: py_range2_def flip: of_nat_mult)
  define res where "res = fold (place_line (int C) lof) (map int [0..<R]) (py_range2 1 (int R * int C + 1))"
  have "length res = R * C"
    using fold_place_line_inv [OF len len2, of R] unfolding res_def by blast
  moreover have "mset (take (R * C) res) = mset (drop (R * C - R * C) lof)"
    using fold_place_line_inv [OF len len2, of R] unfolding res_def by blast
  ultimately have "mset res = mset lof" by simp
  moreover have "rearrange_folders_list sp (int R) (int C) =
      (if py_in ''bottom'' sp
       then fold (place_line (int C) lof) (py_range (int R)) (py_range2 1 (int R * int C + 1))
       else lof)"
    by (simp only: rearrange_folders_list_def Let_def lof_def)
  moreover have "py_range (int R) = map int [0..<R]"
    by (simp add: py_range_def)
  ultimately show ?thesis
    using ms by (simp add: res_def)
qed

text \<open>
  Claim C1. For every number of rows \<open>r \<ge> 1\<close>, every number of columns \<open>c \<ge> 1\<close> and each of
  the four starting corners, \<^verbatim>\<open>rearrange_folders_list(corner, r, c)\<close> is a permutation of the
  indices \<open>0, \<dots>, r * c - 1\<close>: every index occurs exactly once, none is skipped and none is
  duplicated.
\<close>

theorem rearrange_folders_list_permutation:
  assumes "1 \<le> r" and "1 \<le> c"
    and "corner \<in> {''top-left'', ''top-right'', ''bottom-left'', ''bottom-right''}"
  shows "mset (rearrange_folders_list corner r c) = mset (py_range (r * c))
       \<and> distinct (rearrange_folders_list corner r c)
       \<and> set (rearrange_folders_list corner r c) = {0..<r * c}"
proof -
  obtain R C where rc: "r = int R" "c = int C"
    using assms(1,2) by (metis nonneg_int_cases zero_le_one order_trans)
  have ms: "mset (rearrange_folders_list corner r c) = mset (py_range (r * c))"
    using mset_rearrange [of corner R C] rc by (simp add: py_range_def flip: of_nat_mult)
  have d: "distinct (py_range (r * c))"
    by (simp add: py_range_def distinct_map)
  have s: "set (py_range (r * c)) = {0..<r * c}"
    using rc by (simp add: py_range_def image_int_atLeastLessThan flip: of_nat_mult)
  from ms d have "distinct (rearrange_folders_list corner r c)"
    by (metis mset_eq_imp_distinct_iff)
  moreover from ms s have "set (rearrange_folders_list corner r c) = {0..<r * c}"
    by (metis mset_eq_setD)
  ultimately show ?thesis using ms by simp
qed

theorem rearrange_folders_list_permutation_witness:
  "(1::int) \<le> 2 \<and> (1::int) \<le> 3
   \<and> ''bottom-right'' \<in> {''top-left'', ''top-right'', ''bottom-left'', ''bottom-right''}
   \<and> mset (rearrange_folders_list ''bottom-right'' 2 3) = mset (py_range (2 * 3))
   \<and> distinct (rearrange_folders_list ''bottom-right'' 2 3)
   \<and> set (rearrange_folders_list ''bottom-right'' 2 3) = {0..<2 * 3}"
  using rearrange_folders_list_permutation [of 2 3 "''bottom-right''"] by simp

text \<open>
  Claim C6. With two rows and three columns, the ordering for the bottom-right corner is the
  ordering for the top-left corner with the order of the rows reversed and the scan inside
  each row reversed; concretely it is \<open>[3, 4, 5, 2, 1, 0]\<close> against \<open>[0, 1, 2, 5, 4, 3]\<close>.
\<close>

theorem rearrange_bottom_right_reverses_top_left:
  "rearrange_folders_list ''bottom-right'' 2 3 =
     concat (rev (map rev (grid_rows 2 3 (rearrange_folders_list ''top-left'' 2 3))))
   \<and> rearrange_folders_list ''top-left'' 2 3 = [0, 1, 2, 5, 4, 3]
   \<and> rearrange_folders_list ''bottom-right'' 2 3 = [3, 4, 5, 2, 1, 0]"
  by code_simp


section \<open>The intensity conversions are not inverse to each other\<close>

lemma conversion_from_uint16_of_zero:
  "conversion_from_uint16_to_float32 [0] min_value max_value = [- min_value]"
  by (simp add: conversion_from_uint16_to_float32_def)

text \<open>
  Claim C10 says that converting a 16-bit image to float with bounds \<open>min_value < max_value\<close>
  and back with the same bounds returns the image, 0 being sent to \<open>min_value\<close> and 65535 to
  \<open>max_value\<close>. The code subtracts \<open>min_value\<close> where it has to add it: with the bounds
  \<open>-1\<close> and \<open>1\<close> the pixel 0 is sent to \<open>1\<close> (the maximum, not the minimum), and the way back
  returns 65535 instead of 0. Every value in this computation is exact in 32-bit floating
  point.
\<close>

theorem conversion_roundtrip_changes_pixel:
  "conversion_from_uint16_to_float32 [0] (- 1) 1 = [1]
   \<and> conversion_from_float32_to_uint16 (conversion_from_uint16_to_float32 [0] (- 1) 1) (- 1) 1
       = [Some 65535]"
  by (simp add: conversion_from_uint16_to_float32_def conversion_from_float32_to_uint16_def
      astype_uint16_def)


section \<open>The two averaging modes coincide\<close>

lemma np_binop3_same_shape:
  assumes "vol_n a = vol_n b" and "vol_w a = vol_w b" and "vol_h a = vol_h b"
  shows "np_binop3 f a b =
           Inr \<lparr>vol_n = vol_n a, vol_w = vol_w a, vol_h = vol_h a,
                vol_at = (\<lambda>i j k. f (vol_at a (bidx (vol_n a) i) (bidx (vol_w a) j) (bidx (vol_h a) k))
                                     (vol_at b (bidx (vol_n b) i) (bidx (vol_w b) j) (bidx (vol_h b) k)))\<rparr>"
  using assms by (simp add: np_binop3_def broadcast_dim_def)

lemma bidx_in_range: "i < d \<Longrightarrow> bidx d i = i"
  by (simp add: bidx_def)

text \<open>
  Claim C8. For two slice sequences of the same shape, \<^verbatim>\<open>average_images_from_filenames\<close>
  returns the entrywise arithmetic mean \<open>(first + second) / 2\<close> in mode 1 (standard average)
  and in mode 2 (weighted average) alike: the two modes give the same array.
\<close>

theorem average_images_modes_agree:
  assumes "open_sequence first_image_filenames = Inr first_image"
    and "open_sequence second_image_filenames = Inr second_image"
    and "vol_n first_image = vol_n second_image"
    and "vol_w first_image = vol_w second_image"
    and "vol_h first_image = vol_h second_image"
  shows "\<exists>averaged.
           average_images_from_filenames open_sequence first_image_filenames second_image_filenames 1
             = Inr averaged
         \<and> average_images_from_filenames open_sequence first_image_filenames second_image_filenames 2
             = Inr averaged
         \<and> vol_n averaged = vol_n first_image
         \<and> vol_w averaged = vol_w first_image
         \<and> vol_h averaged = vol_h first_image
         \<and> (\<forall>i < vol_n first_image. \<forall>j < vol_w first_image. \<forall>k < vol_h first_image.
               vol_at averaged i j k = (vol_at first_image i j k + vol_at second_image i j k) / 2)"
  using assms
  by (simp add: average_images_from_filenames_def np_binop3_same_shape np_div_scalar3_def
      bidx_in_range)

theorem average_images_modes_agree_witness:
  "(\<lambda>fs. Inr \<lparr>vol_n = 1, vol_w = 1, vol_h = 2, vol_at = (\<lambda>i j k. real (length fs) + real k)\<rparr>) [''a'']
     = (Inr \<lparr>vol_n = 1, vol_w = 1, vol_h = 2, vol_at = (\<lambda>i j k. 1 + real k)\<rparr> :: error + real vol)
   \<and> (\<lambda>fs. Inr \<lparr>vol_n = 1, vol_w = 1, vol_h = 2, vol_at = (\<lambda>i j k. real (length fs) + real k)\<rparr>) [''b'', ''c'']
     = (Inr \<lparr>vol_n = 1, vol_w = 1, vol_h = 2, vol_at = (\<lambda>i j k. 2 + real k)\<rparr> :: error + real vol)
   \<and> (\<exists>averaged.
         average_images_from_filenames
           (\<lambda>fs. Inr \<lparr>vol_n = 1, vol_w = 1, vol_h = 2, vol_at = (\<lambda>i j k. real (length fs) + real k)\<rparr>)
           [''a''] [''b'', ''c''] 1 = Inr averaged
       \<and> average_images_from_filenames
           (\<lambda>fs. Inr \<lparr>vol_n = 1, vol_w = 1, vol_h = 2, vol_at = (\<lambda>i j k. real (length fs) + real k)\<rparr>)
           [''a''] [''b'', ''c''] 2 = Inr averaged
       \<and> vol_n averaged = 1 \<and> vol_w averaged = 1 \<and> vol_h averaged = 2
       \<and> vol_at averaged 0 0 1 = 5 / 2)"
  using average_images_modes_agree
    [of "\<lambda>fs. Inr \<lparr>vol_n = 1, vol_w = 1, vol_h = 2, vol_at = (\<lambda>i j k. real (length fs) + real k)\<rparr>"
        "[''a'']" "\<lparr>vol_n = 1, vol_w = 1, vol_h = 2, vol_at = (\<lambda>i j k. 1 + real k)\<rparr>"
        "[''b'', ''c'']" "\<lparr>vol_n = 1, vol_w = 1, vol_h = 2, vol_at = (\<lambda>i j k. 2 + real k)\<rparr>"]
  by fastforce


section \<open>The last row of the final concatenation is cropped at its bottom edge\<close>

text \<open>
  Claim C9 says that in the final concatenation every row is cropped at half the overlap
  height, row 0 keeping its top edge and the last row keeping its bottom edge. The code has
  a case for row 0 only: every later row, the last one included, loses
  \<^verbatim>\<open>supposed_overlap // 2\<close> lines at both edges. With two rows of height 4 and an overlap
  of 2 the canvas has the \<open>2 * 4 - 2 = 6\<close> lines that the claim needs, but the last line of
  the second row (the value 8) is not written and the last line of the canvas stays zero.
\<close>

theorem concatenate_lines_crops_last_row:
  "map_sum id (map img_rows)
     (concatenate_lines 4 1 1 2
        [[img_of_rows [[1], [2], [3], [4]]], [img_of_rows [[5], [6], [7], [8]]]])
   = Inr [[[1], [2], [3], [6], [7], [0]]]"
  by (simp add: concatenate_lines_def np_zeros2_def place_row_def assign_rows_def
      img_of_rows_def img_rows_def slice_bound_def bidx_def Let_def upt_rec)


section \<open>The check of the band size\<close>

text \<open>
  Claim C5 says that a run with \<open>security_band_size \<le> 0\<close> ends with an identifiable error
  before any output file is emitted, whatever the number of input folders. The check sits
  in the branch that handles a folder together with its successor: a run on a single
  folder never reaches it and copies the slices of that folder (all but the last) to the
  output, without any error.
\<close>

theorem single_folder_skips_band_check:
  "security_band_size no_band_options \<le> 0
   \<and> map_sum fst (events \<circ> snd \<circ> snd)
       (stitch_multiple_folders_into_one no_band_options [0] example_world)
     = Inr [Copied (0, 0) (9, 0), Copied (0, 1) (9, 1), Copied (0, 2) (9, 2)]"
  by code_simp

text \<open>
  Claim C5, amended. A run with \<open>security_band_size \<le> 0\<close> on at least two input folders
  ends with \<^verbatim>\<open>SystemExit\<close> carrying the message \<^verbatim>\<open>Please use a security_band_size > 0\<close>, and
  the file system and the record of emitted files are as they were at the start: no output
  file has been emitted.
\<close>

theorem band_check_exits_before_output:
  assumes "security_band_size opts \<le> 0" and "2 \<le> length list_of_folders"
  shows "stitch_multiple_folders_into_one opts list_of_folders w =
           Inl (SystemExit ''Please use a security_band_size > 0'', w)"
proof -
  have "0 < length list_of_folders"
    using assms(2) by (cases list_of_folders) simp_all
  then have "[0..<length list_of_folders] = 0 # [Suc 0..<length list_of_folders]"
    by (rule upt_conv_Cons)
  moreover have "stitch_folder opts (sort list_of_folders) 0 (0, 0, w) =
      Inl (SystemExit ''Please use a security_band_size > 0'', w)"
    using assms by (simp add: stitch_folder_def Let_def)
  ultimately show ?thesis
    by (simp add: stitch_multiple_folders_into_one_def)
qed

theorem band_check_exits_before_output_witness:
  "security_band_size no_band_options \<le> 0 \<and> 2 \<le> length [0::nat, 1]
   \<and> stitch_multiple_folders_into_one no_band_options [0, 1] example_world =
       Inl (SystemExit ''Please use a security_band_size > 0'', example_world)"
  using band_check_exits_before_output [of no_band_options "[0, 1]" example_world]
  by (simp add: no_band_options_def example_options_def)


section \<open>Copying or moving a list of files\<close>




lemma emitted_sources_append:
  "emitted_sources (w\<lparr>events := events w @ es\<rparr>) = emitted_sources w @ concat (map event_source es)"
  by (simp add: emitted_sources_def)





section \<open>The loop over the folders in cut-over mode\<close>



















section \<open>The aggregation over the band\<close>








section \<open>Invariance of the best slice under a change of intensity\<close>





















end
